theory Spec2Isabelle
  imports Complex_Main
begin

section \<open>Data model (src/models/User.js, userSchema)\<close>

text \<open>
  The Mongoose schema of \<^verbatim>\<open>User\<close> is embedded as nested records. Only the paths that the
  modelled methods read are kept. A nested path (\<^verbatim>\<open>genderIdentity\<close>,
  \<^verbatim>\<open>location\<close>, \<^verbatim>\<open>preferences\<close>, ...) is an object on every Mongoose
  document and an array path is an array, so they are plain fields, as are the paths
  with a schema default that the query reads. A leaf that a stored or projected document
  may lack where the code tests for it is an \<open>option\<close> (\<open>None\<close> is JavaScript's
  \<^verbatim>\<open>undefined\<close>/\<^verbatim>\<open>null\<close>). The \<^verbatim>\<open>_id\<close> is \<open>user_id\<close>.

  JavaScript numbers are IEEE doubles. Coordinates and distances are kept as \<open>real\<close>
  values that are only stored and compared, never computed with; ages, limits and
  timestamps (milliseconds since the epoch) are integers.
\<close>

record genderIdentity =
  myGender :: string
  interestedIn :: "string list"

record moodSystem =
  currentMood :: string

record location =
  coordinates :: "real list option"

record ageRange =
  range_min :: int
  range_max :: int

record preferences =
  searchRadius :: real
  ageRange :: ageRange

record user =
  user_id :: string
  password :: "string option"
  dateOfBirth :: "int option"
  genderIdentity :: genderIdentity
  moodSystem :: moodSystem
  location :: location
  isActive :: bool
  lastSeen :: int
  preferences :: preferences
  refreshTokens :: "string list option"
  passwordResetToken :: "string option"
  emailVerificationToken :: "string option"
  isBanned :: bool

section \<open>Gender compatibility\<close>

text \<open>
  \<^verbatim>\<open>Array.prototype.includes\<close> on an array of strings is list membership.
  \<^verbatim>\<open>
  userSchema.methods.isGenderCompatibleWith = function(otherUser) {
    const myInterestedIn = this.genderIdentity.interestedIn;
    const otherInterestedIn = otherUser.genderIdentity.interestedIn;
    const iAmInterestedInThem = myInterestedIn.includes(otherUser.genderIdentity.myGender) ||
                                myInterestedIn.includes('tous');
    const theyAreInterestedInMe = otherInterestedIn.includes(this.genderIdentity.myGender) ||
                                  otherInterestedIn.includes('tous');
    return iAmInterestedInThem && theyAreInterestedInMe;
  };
  \<close>
\<close>

definition array_includes :: "'a list \<Rightarrow> 'a \<Rightarrow> bool" where
  "array_includes xs x = (x \<in> set xs)"

definition isGenderCompatibleWith :: "user \<Rightarrow> user \<Rightarrow> bool" where
  "isGenderCompatibleWith this otherUser =
     (let myInterestedIn = interestedIn (genderIdentity this);
          otherInterestedIn = interestedIn (genderIdentity otherUser);
          iAmInterestedInThem =
            (array_includes myInterestedIn (myGender (genderIdentity otherUser)) \<or>
             array_includes myInterestedIn ''tous'');
          theyAreInterestedInMe =
            (array_includes otherInterestedIn (myGender (genderIdentity this)) \<or>
             array_includes otherInterestedIn ''tous'')
      in iAmInterestedInThem \<and> theyAreInterestedInMe)"

section \<open>Distance between two users\<close>

text \<open>
  \<^verbatim>\<open>
  userSchema.methods.distanceTo = function(otherUser) {
    if (!this.location.coordinates || !otherUser.location.coordinates) {
      return null;
    }
    const [lon1, lat1] = this.location.coordinates;
    const [lon2, lat2] = otherUser.location.coordinates;
    const R = 6371000;
    const phi1 = lat1 * Math.PI / 180;
    const phi2 = lat2 * Math.PI / 180;
    const dphi = (lat2 - lat1) * Math.PI / 180;
    const dlambda = (lon2 - lon1) * Math.PI / 180;
    const a = Math.sin(dphi/2) * Math.sin(dphi/2) +
              Math.cos(phi1) * Math.cos(phi2) *
              Math.sin(dlambda/2) * Math.sin(dlambda/2);
    const c = 2 * Math.atan2(Math.sqrt(a), Math.sqrt(1-a));
    return Math.round(R * c);
  };
  \<close>
  (The source writes the four angles with Greek letters.) An array is truthy in JavaScript
  whatever it holds, so the guard rejects exactly a missing
  (\<^verbatim>\<open>null\<close>/\<^verbatim>\<open>undefined\<close>) coordinate array. Everything after the guard is
  double-precision arithmetic through \<^verbatim>\<open>Math.sin\<close>, \<^verbatim>\<open>Math.cos\<close>,
  \<^verbatim>\<open>Math.sqrt\<close>, \<^verbatim>\<open>Math.atan2\<close> and \<^verbatim>\<open>Math.round\<close>, whose results
  the language leaves to the implementation. It never throws (a missing array element
  destructures to \<^verbatim>\<open>undefined\<close> and the arithmetic yields \<^verbatim>\<open>NaN\<close>), and it is
  taken as the parameter \<open>haversine\<close>, a function of the two coordinate arrays into
  the numbers \<open>'n\<close>.

  The number need not be a distance. The sum \<^verbatim>\<open>a\<close> is not clamped to the interval from
  0 to 1: for nearly antipodal points it can round above 1 (in double precision it is
  1.0000000000000002 at \<^verbatim>\<open>[-4.3057, 81.7601]\<close> and \<^verbatim>\<open>[175.6943, -81.7601]\<close>), and
  then \<^verbatim>\<open>Math.sqrt(1-a)\<close> and the result are \<^verbatim>\<open>NaN\<close>, in either order of the two
  points. For a point and itself every step is exact and the result is 0.
\<close>

definition distanceTo :: "(real list \<Rightarrow> real list \<Rightarrow> 'n) \<Rightarrow> user \<Rightarrow> user \<Rightarrow> 'n option" where
  "distanceTo haversine this otherUser =
     (case coordinates (location this) of
        None \<Rightarrow> None
      | Some c1 \<Rightarrow>
          (case coordinates (location otherUser) of
             None \<Rightarrow> None
           | Some c2 \<Rightarrow> Some (haversine c1 c2)))"

section \<open>Public profile\<close>

text \<open>
  \<^verbatim>\<open>
  userSchema.methods.getPublicProfile = function() {
    const user = this.toObject();
    delete user.password;
    delete user.email;
    delete user.refreshTokens;
    delete user.passwordResetToken;
    delete user.passwordResetExpires;
    delete user.emailVerificationToken;
    delete user.emailVerificationExpires;
    return user;
  };
  \<close>
  The plain object that Mongoose's \<^verbatim>\<open>toObject\<close> builds is a map from property names
  to values; \<^verbatim>\<open>delete\<close> removes a key and is silent when the key is missing.
  \<^verbatim>\<open>toObject\<close> itself is library code and is a parameter.
\<close>

definition delete_property :: "(string \<rightharpoonup> 'v) \<Rightarrow> string \<Rightarrow> (string \<rightharpoonup> 'v)" where
  "delete_property obj k = obj(k := None)"

definition getPublicProfile :: "('doc \<Rightarrow> (string \<rightharpoonup> 'v)) \<Rightarrow> 'doc \<Rightarrow> (string \<rightharpoonup> 'v)" where
  "getPublicProfile toObject this =
     (let user = toObject this;
          user = delete_property user ''password'';
          user = delete_property user ''email'';
          user = delete_property user ''refreshTokens'';
          user = delete_property user ''passwordResetToken'';
          user = delete_property user ''passwordResetExpires'';
          user = delete_property user ''emailVerificationToken'';
          user = delete_property user ''emailVerificationExpires''
      in user)"

section \<open>Dates (ECMA-262, Date objects)\<close>

text \<open>
  A \<^verbatim>\<open>Date\<close> is its time value: milliseconds since 1970-01-01T00:00:00Z, an integer.
  The functions below are the abstract operations of ECMA-262 that the source reaches
  through \<^verbatim>\<open>getFullYear\<close>, \<^verbatim>\<open>getMonth\<close>, \<^verbatim>\<open>getDate\<close> and
  \<^verbatim>\<open>new Date(year, month, date)\<close>. Integer \<open>div\<close> and \<open>mod\<close> in HOL round
  towards minus infinity, as \<^verbatim>\<open>floor\<close> and the specification's modulo do.
\<close>

definition msPerDay :: int where
  "msPerDay = 86400000"

definition Day :: "int \<Rightarrow> int" where
  "Day t = t div msPerDay"

definition TimeWithinDay :: "int \<Rightarrow> int" where
  "TimeWithinDay t = t mod msPerDay"

definition DaysInYear :: "int \<Rightarrow> int" where
  "DaysInYear y =
     (if y mod 4 \<noteq> 0 then 365
      else if y mod 100 \<noteq> 0 then 366
      else if y mod 400 \<noteq> 0 then 365
      else 366)"

definition DayFromYear :: "int \<Rightarrow> int" where
  "DayFromYear y =
     365 * (y - 1970) + (y - 1969) div 4 - (y - 1901) div 100 + (y - 1601) div 400"

text \<open>
  \<open>YearFromTime t\<close> is the largest year \<open>y\<close> with \<open>TimeFromYear y \<le> t\<close>. It is
  found by counting up from a year that is not later; the first day of a year comes
  before the first day of the next, so the search ends.
\<close>

function yearSearch :: "int \<Rightarrow> int \<Rightarrow> int" where
  "yearSearch d y = (if DayFromYear (y + 1) \<le> d then yearSearch d (y + 1) else y)"
  by pat_completeness auto
termination
proof (relation "measure (\<lambda>(d, y). nat (d + 1 - DayFromYear (y + 1)))")
  show "wf (measure (\<lambda>(d, y). nat (d + 1 - DayFromYear (y + 1))))" by simp
next
  fix d y :: int
  assume le: "DayFromYear (y + 1) \<le> d"
  define a1 where "a1 = (y + 1 - 1969) div 4"
  define a2 where "a2 = (y + 1 + 1 - 1969) div 4"
  define b1 where "b1 = (y + 1 - 1901) div 100"
  define b2 where "b2 = (y + 1 + 1 - 1901) div 100"
  define c1 where "c1 = (y + 1 - 1601) div 400"
  define c2 where "c2 = (y + 1 + 1 - 1601) div 400"
  have a: "a1 \<le> a2" unfolding a1_def a2_def by (rule zdiv_mono1) simp_all
  have c: "c1 \<le> c2" unfolding c1_def c2_def by (rule zdiv_mono1) simp_all
  have "b2 \<le> (y + 1 - 1901 + 100) div 100" unfolding b2_def by (rule zdiv_mono1) simp_all
  also have "\<dots> = b1 + 1" unfolding b1_def by simp
  finally have b: "b2 \<le> b1 + 1" .
  have e1: "DayFromYear (y + 1) = 365 * (y + 1 - 1970) + a1 - b1 + c1"
    unfolding DayFromYear_def a1_def b1_def c1_def by (rule refl)
  have e2: "DayFromYear (y + 1 + 1) = 365 * (y + 1 + 1 - 1970) + a2 - b2 + c2"
    unfolding DayFromYear_def a2_def b2_def c2_def by (rule refl)
  have "DayFromYear (y + 1) < DayFromYear (y + 1 + 1)"
    unfolding e1 e2 using a b c by simp
  with le show "((d, y + 1), (d, y)) \<in> measure (\<lambda>(d, y). nat (d + 1 - DayFromYear (y + 1)))"
    by simp
qed

declare yearSearch.simps [simp del]

definition YearFromTime :: "int \<Rightarrow> int" where
  "YearFromTime t =
     (let d = Day t
      in yearSearch d (if 0 \<le> d then 1970 + d div 366 else 1969 + d div 365))"

definition InLeapYear :: "int \<Rightarrow> int" where
  "InLeapYear t = (if DaysInYear (YearFromTime t) = 366 then 1 else 0)"

definition DayWithinYear :: "int \<Rightarrow> int" where
  "DayWithinYear t = Day t - DayFromYear (YearFromTime t)"

text \<open>The day number within its year on which month \<open>m\<close> (0 to 11) starts.\<close>

definition monthStart :: "int \<Rightarrow> int \<Rightarrow> int" where
  "monthStart m leap =
     (if m = 0 then 0
      else if m = 1 then 31
      else if m = 2 then 59 + leap
      else if m = 3 then 90 + leap
      else if m = 4 then 120 + leap
      else if m = 5 then 151 + leap
      else if m = 6 then 181 + leap
      else if m = 7 then 212 + leap
      else if m = 8 then 243 + leap
      else if m = 9 then 273 + leap
      else if m = 10 then 304 + leap
      else 334 + leap)"

definition MonthFromTime :: "int \<Rightarrow> int" where
  "MonthFromTime t =
     (let d = DayWithinYear t; leap = InLeapYear t
      in if d < 31 then 0
         else if d < 59 + leap then 1
         else if d < 90 + leap then 2
         else if d < 120 + leap then 3
         else if d < 151 + leap then 4
         else if d < 181 + leap then 5
         else if d < 212 + leap then 6
         else if d < 243 + leap then 7
         else if d < 273 + leap then 8
         else if d < 304 + leap then 9
         else if d < 334 + leap then 10
         else 11)"

definition DateFromTime :: "int \<Rightarrow> int" where
  "DateFromTime t = DayWithinYear t - monthStart (MonthFromTime t) (InLeapYear t) + 1"

text \<open>
  \<open>MakeDay\<close>: the day number of the first of month \<open>mn\<close> in year \<open>ym\<close>, plus
  \<open>date - 1\<close>; months outside 0 to 11 carry into the year.
\<close>

definition MakeDay :: "int \<Rightarrow> int \<Rightarrow> int \<Rightarrow> int" where
  "MakeDay year month date =
     (let ym = year + month div 12;
          mn = month mod 12
      in DayFromYear ym + monthStart mn (if DaysInYear ym = 366 then 1 else 0) + date - 1)"

definition MakeDate :: "int \<Rightarrow> int \<Rightarrow> int" where
  "MakeDate day time = day * msPerDay + time"

text \<open>\<open>TimeClip\<close>: a time value beyond 8.64e15 ms is an Invalid Date (\<open>None\<close>).\<close>

definition TimeClip :: "int \<Rightarrow> int option" where
  "TimeClip t = (if \<bar>t\<bar> > 8640000000000000 then None else Some t)"

text \<open>
  The environment of a call: the clock reading that \<^verbatim>\<open>new Date()\<close> and
  \<^verbatim>\<open>Date.now()\<close> return, and the host's local time zone adjustment
  \<open>LocalTZA t isUTC\<close> in milliseconds.
\<close>

record env =
  nowMs :: int
  LocalTZA :: "int \<Rightarrow> bool \<Rightarrow> int"

definition LocalTime :: "env \<Rightarrow> int \<Rightarrow> int" where
  "LocalTime e t = t + LocalTZA e t True"

definition UTC :: "env \<Rightarrow> int \<Rightarrow> int" where
  "UTC e t = t - LocalTZA e t False"

definition getFullYear :: "env \<Rightarrow> int \<Rightarrow> int" where
  "getFullYear e t = YearFromTime (LocalTime e t)"

definition getMonth :: "env \<Rightarrow> int \<Rightarrow> int" where
  "getMonth e t = MonthFromTime (LocalTime e t)"

definition getDate :: "env \<Rightarrow> int \<Rightarrow> int" where
  "getDate e t = DateFromTime (LocalTime e t)"

text \<open>
  \<^verbatim>\<open>new Date(year, month, date)\<close>: local midnight of that calendar day; a year from 0
  to 99 means 1900 + year.
\<close>

definition newDate :: "env \<Rightarrow> int \<Rightarrow> int \<Rightarrow> int \<Rightarrow> int option" where
  "newDate e year month date =
     (let yr = (if 0 \<le> year \<and> year \<le> 99 then 1900 + year else year);
          finalDate = MakeDate (MakeDay yr month date) 0
      in TimeClip (UTC e finalDate))"

section \<open>Age\<close>

text \<open>
  \<^verbatim>\<open>
  userSchema.virtual('age').get(function() {
    if (!this.dateOfBirth) return null;
    return Math.floor((Date.now() - this.dateOfBirth.getTime()) / (365.25 * 24 * 60 * 60 * 1000));
  });
  \<close>
  The divisor is the integer 31557600000 and the dividend an integer that a double holds
  exactly; for quotients below half a million years the rounded quotient has the floor
  of the exact one, which is integer division.
\<close>

definition age :: "env \<Rightarrow> user \<Rightarrow> int option" where
  "age e this =
     (case dateOfBirth this of
        None \<Rightarrow> None
      | Some dob \<Rightarrow> Some ((nowMs e - dob) div 31557600000))"

section \<open>The user collection and its query\<close>

text \<open>
  \<^verbatim>\<open>findCompatibleUsers\<close> builds one MongoDB query and hands it to Mongoose. The
  store lies outside the repository; this section models it as its documentation
  describes the operators the query uses. The collection is the list of stored documents
  together with the store's geospatial predicate: \<open>nearSphere p q d\<close> says whether the
  stored point \<open>q\<close> lies within \<open>d\<close> metres of the query point \<open>p\<close> on the store's
  sphere (the \<^verbatim>\<open>2dsphere\<close> index of \<^verbatim>\<open>location\<close>). That geometry is the
  store's own and stays a parameter.
\<close>

record collection =
  documents :: "user list"
  nearSphere :: "real list \<Rightarrow> real list \<Rightarrow> real \<Rightarrow> bool"

text \<open>
  The query document, one field per key the source sets:
  \<^verbatim>\<open>
  const query = {
    _id: { $ne: user._id },
    isActive: true,
    isBanned: false,
    location: { $near: { $geometry: user.location, $maxDistance: maxDistance } }
  };
  query.dateOfBirth = { $gte: minBirthDate, $lte: maxBirthDate };
  if (mood) { query['moodSystem.currentMood'] = mood; }
  \<close>
  A date bound is \<open>None\<close> when the \<^verbatim>\<open>Date\<close> is invalid; \<open>q_currentMood\<close> is
  \<open>None\<close> when the key is not set.
\<close>

record query =
  q_id_ne :: string
  q_isActive :: bool
  q_isBanned :: bool
  q_near_geometry :: location
  q_near_maxDistance :: real
  q_dateOfBirth_gte :: "int option"
  q_dateOfBirth_lte :: "int option"
  q_currentMood :: "string option"

text \<open>
  What executing the query can raise before any document is returned: Mongoose refuses
  to cast an invalid \<^verbatim>\<open>Date\<close>, and the \<^verbatim>\<open>$near\<close> operator needs a point with
  coordinates.
\<close>

datatype error = InvalidGeometry | CastError

text \<open>
  Whether a stored document satisfies the query, for a query point \<open>p\<close> and date bounds
  \<open>lo\<close>, \<open>hi\<close>: every key of the query document is a conjunct. A document without
  coordinates is not in the geospatial index, and a range on a missing field matches
  nothing.
\<close>

definition matches :: "collection \<Rightarrow> query \<Rightarrow> real list \<Rightarrow> int \<Rightarrow> int \<Rightarrow> user \<Rightarrow> bool" where
  "matches coll q p lo hi doc =
     (user_id doc \<noteq> q_id_ne q \<and>
      isActive doc = q_isActive q \<and>
      isBanned doc = q_isBanned q \<and>
      (case coordinates (location doc) of
         None \<Rightarrow> False
       | Some c \<Rightarrow> nearSphere coll p c (q_near_maxDistance q)) \<and>
      (case dateOfBirth doc of
         None \<Rightarrow> False
       | Some dob \<Rightarrow> lo \<le> dob \<and> dob \<le> hi) \<and>
      (case q_currentMood q of
         None \<Rightarrow> True
       | Some m \<Rightarrow> currentMood (moodSystem doc) = m))"

text \<open>
  Executing the query. Mongoose casts the keys of the filter from the last to the first:
  the two bounds of \<^verbatim>\<open>dateOfBirth\<close> come before \<^verbatim>\<open>location\<close> (and either bound
  gives the same error, so their order does not show). So an invalid date bound is
  reported whatever the query point is, and a query point without coordinates is rejected
  only when both date bounds are valid.
\<close>

definition find_docs :: "collection \<Rightarrow> query \<Rightarrow> error + user list" where
  "find_docs coll q =
     (case q_dateOfBirth_lte q of
        None \<Rightarrow> Inl CastError
      | Some hi \<Rightarrow>
          (case q_dateOfBirth_gte q of
             None \<Rightarrow> Inl CastError
           | Some lo \<Rightarrow>
               (case coordinates (q_near_geometry q) of
                  None \<Rightarrow> Inl InvalidGeometry
                | Some p \<Rightarrow> Inr (filter (matches coll q p lo hi) (documents coll)))))"

text \<open>\<^verbatim>\<open>.sort({ lastSeen: -1 })\<close>: most recently seen first.\<close>

definition sort_lastSeen_desc :: "user list \<Rightarrow> user list" where
  "sort_lastSeen_desc docs = sort_key (\<lambda>d. - lastSeen d) docs"

text \<open>\<^verbatim>\<open>.limit(n)\<close>: at most \<open>n\<close> documents; a limit of 0 is no limit.\<close>

definition limit_docs :: "nat \<Rightarrow> user list \<Rightarrow> user list" where
  "limit_docs n docs = (if n = 0 then docs else take n docs)"

text \<open>
  \<^verbatim>\<open>.select('-password -refreshTokens -passwordResetToken -emailVerificationToken')\<close>:
  the four paths are left out of every returned document.
\<close>

definition select_fields :: "user \<Rightarrow> user" where
  "select_fields doc =
     doc\<lparr>password := None, refreshTokens := None,
         passwordResetToken := None, emailVerificationToken := None\<rparr>"

section \<open>Candidate query\<close>

text \<open>
  The options bundle; \<open>None\<close> is a key the caller left out, which is when a
  destructuring default applies.
\<close>

record options =
  opt_maxDistance :: "real option"
  opt_ageMin :: "int option"
  opt_ageMax :: "int option"
  opt_mood :: "string option"
  opt_limit :: "nat option"

text \<open>
  \<^verbatim>\<open>
  userSchema.statics.findCompatibleUsers = function(user, options = {}) {
    const {
      maxDistance = user.preferences.searchRadius || 10000,
      ageMin = user.preferences.ageRange.min || 18,
      ageMax = user.preferences.ageRange.max || 35,
      mood = null,
      limit = 50
    } = options;
    const query = {
      _id: { $ne: user._id },
      isActive: true,
      isBanned: false,
      location: { $near: { $geometry: user.location, $maxDistance: maxDistance } }
    };
    const now = new Date();
    const maxBirthDate = new Date(now.getFullYear() - ageMin, now.getMonth(), now.getDate());
    const minBirthDate = new Date(now.getFullYear() - ageMax, now.getMonth(), now.getDate());
    query.dateOfBirth = { $gte: minBirthDate, $lte: maxBirthDate };
    if (mood) { query['moodSystem.currentMood'] = mood; }
    return this.find(query)
      .select('-password -refreshTokens -passwordResetToken -emailVerificationToken')
      .limit(limit)
      .sort({ lastSeen: -1 });
  };
  \<close>
  \<^verbatim>\<open>a || b\<close> on numbers is \<open>b\<close> when \<open>a\<close> is 0; a string is truthy unless empty.
  The value is what the returned Mongoose query yields when it is executed: the store
  filters, sorts, limits and projects, in that order.
\<close>

definition findCompatibleUsers :: "env \<Rightarrow> collection \<Rightarrow> user \<Rightarrow> options \<Rightarrow> error + user list" where
  "findCompatibleUsers e coll user opts =
     (let maxDistance =
            (case opt_maxDistance opts of
               Some d \<Rightarrow> d
             | None \<Rightarrow>
                 (if searchRadius (preferences user) \<noteq> 0
                  then searchRadius (preferences user) else 10000));
          ageMin =
            (case opt_ageMin opts of
               Some a \<Rightarrow> a
             | None \<Rightarrow>
                 (if range_min (ageRange (preferences user)) \<noteq> 0
                  then range_min (ageRange (preferences user)) else 18));
          ageMax =
            (case opt_ageMax opts of
               Some a \<Rightarrow> a
             | None \<Rightarrow>
                 (if range_max (ageRange (preferences user)) \<noteq> 0
                  then range_max (ageRange (preferences user)) else 35));
          mood = opt_mood opts;
          limit = (case opt_limit opts of Some n \<Rightarrow> n | None \<Rightarrow> 50);
          now = nowMs e;
          maxBirthDate = newDate e (getFullYear e now - ageMin) (getMonth e now) (getDate e now);
          minBirthDate = newDate e (getFullYear e now - ageMax) (getMonth e now) (getDate e now);
          query =
            \<lparr>q_id_ne = user_id user,
             q_isActive = True,
             q_isBanned = False,
             q_near_geometry = location user,
             q_near_maxDistance = maxDistance,
             q_dateOfBirth_gte = minBirthDate,
             q_dateOfBirth_lte = maxBirthDate,
             q_currentMood =
               (case mood of
                  None \<Rightarrow> None
                | Some m \<Rightarrow> if m \<noteq> [] then Some m else None)\<rparr>
      in case find_docs coll query of
           Inl err \<Rightarrow> Inl err
         | Inr docs \<Rightarrow> Inr (map select_fields (limit_docs limit (sort_lastSeen_desc docs))))"

text \<open>
  Names for the parts of \<open>findCompatibleUsers\<close>: the values the destructuring
  defaults resolve to, the birth date that bounds an age, and the query document.
\<close>

definition resolved_maxDistance :: "user \<Rightarrow> options \<Rightarrow> real" where
  "resolved_maxDistance user opts =
     (case opt_maxDistance opts of
        Some d \<Rightarrow> d
      | None \<Rightarrow>
          (if searchRadius (preferences user) \<noteq> 0
           then searchRadius (preferences user) else 10000))"

definition resolved_ageMin :: "user \<Rightarrow> options \<Rightarrow> int" where
  "resolved_ageMin user opts =
     (case opt_ageMin opts of
        Some a \<Rightarrow> a
      | None \<Rightarrow>
          (if range_min (ageRange (preferences user)) \<noteq> 0
           then range_min (ageRange (preferences user)) else 18))"

definition resolved_ageMax :: "user \<Rightarrow> options \<Rightarrow> int" where
  "resolved_ageMax user opts =
     (case opt_ageMax opts of
        Some a \<Rightarrow> a
      | None \<Rightarrow>
          (if range_max (ageRange (preferences user)) \<noteq> 0
           then range_max (ageRange (preferences user)) else 35))"

definition resolved_limit :: "options \<Rightarrow> nat" where
  "resolved_limit opts = (case opt_limit opts of Some n \<Rightarrow> n | None \<Rightarrow> 50)"

definition birthDate :: "env \<Rightarrow> int \<Rightarrow> int option" where
  "birthDate e a =
     newDate e (getFullYear e (nowMs e) - a) (getMonth e (nowMs e)) (getDate e (nowMs e))"

definition candidate_query :: "env \<Rightarrow> user \<Rightarrow> options \<Rightarrow> query" where
  "candidate_query e user opts =
     \<lparr>q_id_ne = user_id user,
      q_isActive = True,
      q_isBanned = False,
      q_near_geometry = location user,
      q_near_maxDistance = resolved_maxDistance user opts,
      q_dateOfBirth_gte = birthDate e (resolved_ageMax user opts),
      q_dateOfBirth_lte = birthDate e (resolved_ageMin user opts),
      q_currentMood =
        (case opt_mood opts of
           None \<Rightarrow> None
         | Some m \<Rightarrow> if m \<noteq> [] then Some m else None)\<rparr>"

section \<open>Mood freshness\<close>

text \<open>
  Modelled from the spec: the repository's sources hold no function that decides whether
  a mood is still current (the schema only stores
  \<^verbatim>\<open>moodSystem.displaySettings.moodExpiryHours\<close>, default 24, and the timestamps of
  \<^verbatim>\<open>moodHistory\<close>). The contract \<^verbatim>\<open>isFresh(moodTimestamp, expiryHours)\<close> reads:
  a mood entry is fresh iff \<^verbatim>\<open>now - moodTimestamp <= expiryHours\<close>, converted to the same
  time unit. Timestamps are milliseconds; an hour is 3600000 ms.
\<close>

definition isFresh :: "env \<Rightarrow> int \<Rightarrow> int \<Rightarrow> bool" where
  "isFresh e moodTimestamp expiryHours = (nowMs e - moodTimestamp \<le> expiryHours * 3600000)"

section \<open>A fixture\<close>

text \<open>
  A document as registration creates it: the schema's defaults for every path that is not
  given (location \<^verbatim>\<open>[0, 0]\<close>, mood \<^verbatim>\<open>bonne_humeur\<close>, active, not banned, search
  radius 10000 m, age range 18 to 35).
\<close>

definition newUser :: "string \<Rightarrow> int \<Rightarrow> string \<Rightarrow> string list \<Rightarrow> int \<Rightarrow> user" where
  "newUser uid dob gender interested seen =
     \<lparr>user_id = uid,
      password = Some ''$2a$12$hash'',
      dateOfBirth = Some dob,
      genderIdentity = \<lparr>myGender = gender, interestedIn = interested\<rparr>,
      moodSystem = \<lparr>currentMood = ''bonne_humeur''\<rparr>,
      location = \<lparr>coordinates = Some [0, 0]\<rparr>,
      isActive = True,
      lastSeen = seen,
      preferences = \<lparr>searchRadius = 10000, ageRange = \<lparr>range_min = 18, range_max = 35\<rparr>\<rparr>,
      refreshTokens = Some [],
      passwordResetToken = None,
      emailVerificationToken = None,
      isBanned = False\<rparr>"

text \<open>
  The clock reads 2026-11-03T01:00:00Z on a host whose local time is UTC. Nobody in the
  fixture has ever set a location, so every document sits at the default point; two
  coinciding points are within every non-negative distance of each other, which is all the
  fixture needs of the store's geometry.
\<close>

definition fixture_env :: env where
  "fixture_env = \<lparr>nowMs = 1793667600000, LocalTZA = (\<lambda>t isUTC. 0)\<rparr>"

definition coincide :: "real list \<Rightarrow> real list \<Rightarrow> real \<Rightarrow> bool" where
  "coincide p q d = (p = q \<and> 0 \<le> d)"

text \<open>The requester: born 1996-03-10, a woman interested in men.\<close>

definition requester :: user where
  "requester = newUser ''u0'' 826416000000 ''femme'' [''homme''] 1793667000000"

text \<open>Born 1998-05-17 (28 years old), a man interested in women.\<close>

definition cand_mutual :: user where
  "cand_mutual = newUser ''u1'' 895363200000 ''homme'' [''femme''] 1793525400000"

text \<open>Born 1995-08-01 (31 years old), a man interested in men only.\<close>

definition cand_onesided :: user where
  "cand_onesided = newUser ''u2'' 807235200000 ''homme'' [''homme''] 1793649600000"

text \<open>Born 1997-02-02, banned.\<close>

definition cand_banned :: user where
  "cand_banned = (newUser ''u3'' 854841600000 ''homme'' [''femme''] 1793660000000)\<lparr>isBanned := True\<rparr>"

text \<open>Born 1999-09-09, account deactivated.\<close>

definition cand_inactive :: user where
  "cand_inactive = (newUser ''u4'' 936835200000 ''homme'' [''tous''] 1793661000000)\<lparr>isActive := False\<rparr>"

text \<open>Born 1986-01-01 (40 years old).\<close>

definition cand_forty :: user where
  "cand_forty = newUser ''u5'' 504921600000 ''homme'' [''femme''] 1793662000000"

text \<open>Born 2005-11-03T00:00:00Z: the 21st birthday is today.\<close>

definition cand_birthday :: user where
  "cand_birthday = newUser ''u6'' 1130976000000 ''homme'' [''femme'', ''non_binaire''] 1793361600000"


definition fixture_users :: collection where
  "fixture_users =
     \<lparr>documents =
        [requester, cand_mutual, cand_onesided, cand_banned, cand_inactive, cand_forty,
         cand_birthday],
      nearSphere = coincide\<rparr>"

definition no_options :: options where
  "no_options =
     \<lparr>opt_maxDistance = None, opt_ageMin = None, opt_ageMax = None, opt_mood = None,
      opt_limit = None\<rparr>"

section \<open>Integer division\<close>

lemma div_succ:
  fixes a k :: int
  assumes "0 < k"
  shows "(a + 1) div k = a div k + (if (a + 1) mod k = 0 then 1 else 0)"
proof -
  define q where "q = a div k"
  define r where "r = a mod k"
  have a: "a = k * q + r" by (simp add: q_def r_def)
  have r: "0 \<le> r" "r < k" using assms by (simp_all add: r_def)
  show ?thesis
  proof (cases "r + 1 = k")
    case True
    then have e: "a + 1 = k * (q + 1) + 0" using a by (simp add: algebra_simps)
    have "(a + 1) div k = q + 1" by (rule int_div_pos_eq [OF e]) (use assms in simp_all)
    moreover have "(a + 1) mod k = 0" by (rule int_mod_pos_eq [OF e]) (use assms in simp_all)
    ultimately show ?thesis by (simp add: q_def)
  next
    case False
    then have lt: "r + 1 < k" using r by simp
    have e: "a + 1 = k * q + (r + 1)" using a by simp
    have "(a + 1) div k = q" by (rule int_div_pos_eq [OF e]) (use r lt in simp_all)
    moreover have "(a + 1) mod k = r + 1" by (rule int_mod_pos_eq [OF e]) (use r lt in simp_all)
    ultimately show ?thesis using r by (simp add: q_def)
  qed
qed

lemma mod_sub_multiple: "(y - k * c) mod k = y mod (k::int)"
  using mod_mult_self2 [of y k "- c"] by simp

lemma div_lt_two:
  fixes x k :: int
  assumes "0 < k" and "0 \<le> x" and "x < 2 * k"
  shows "0 \<le> x div k" and "x div k \<le> 1"
proof -
  show "0 \<le> x div k" using assms by (simp add: pos_imp_zdiv_nonneg_iff)
  show "x div k \<le> 1"
  proof (rule ccontr)
    assume "\<not> x div k \<le> 1"
    then have "2 \<le> x div k" by simp
    then have "k * 2 \<le> k * (x div k)" using assms(1) by (intro mult_left_mono) simp_all
    moreover have "x = k * (x div k) + x mod k" by simp
    moreover have "0 \<le> x mod k" using assms(1) by simp
    ultimately show False using assms(3) by linarith
  qed
qed

lemma div_diff_bounds:
  fixes a n k :: int
  assumes "0 < k"
  shows "n div k \<le> a div k - (a - n) div k" and "a div k - (a - n) div k \<le> n div k + 1"
proof -
  have e: "a div k = (a - n) div k + n div k + ((a - n) mod k + n mod k) div k"
    using div_add1_eq [of "a - n" n k] by simp
  have "0 \<le> (a - n) mod k" "(a - n) mod k < k" "0 \<le> n mod k" "n mod k < k"
    using assms by simp_all
  then have "0 \<le> (a - n) mod k + n mod k" "(a - n) mod k + n mod k < 2 * k"
    by linarith+
  then have "0 \<le> ((a - n) mod k + n mod k) div k" "((a - n) mod k + n mod k) div k \<le> 1"
    using div_lt_two [OF assms] by blast+
  with e show "n div k \<le> a div k - (a - n) div k" "a div k - (a - n) div k \<le> n div k + 1"
    by linarith+
qed

lemma le_div_int:
  fixes i k x :: int
  assumes "0 < k" and "i * k \<le> x"
  shows "i \<le> x div k"
  using zdiv_mono1 [OF assms(2,1)] assms(1) by simp

lemma div_le_int:
  fixes i k x :: int
  assumes "0 < k" and "x < (i + 1) * k"
  shows "x div k \<le> i"
proof (rule ccontr)
  assume "\<not> x div k \<le> i"
  then have "i + 1 \<le> x div k" by simp
  then have "k * (i + 1) \<le> k * (x div k)" using assms(1) by (intro mult_left_mono) simp_all
  moreover have "x = k * (x div k) + x mod k" by simp
  moreover have "0 \<le> x mod k" using assms(1) by simp
  moreover have "x < k * (i + 1)" using assms(2) by (simp add: mult.commute)
  ultimately show False by linarith
qed

lemma quarter_bounds: "4 * ((a::int) div 4) \<le> a \<and> a \<le> 4 * (a div 4) + 3"
  by presburger

lemma int_div_lower:
  fixes x k :: int
  assumes "0 < k"
  shows "k * (x div k) \<le> x"
proof -
  have "x = k * (x div k) + x mod k" by simp
  moreover have "0 \<le> x mod k" using assms by simp
  ultimately show ?thesis by linarith
qed

lemma int_div_upper:
  fixes x k :: int
  assumes "0 < k"
  shows "x < k * (x div k) + k"
proof -
  have "x = k * (x div k) + x mod k" by simp
  moreover have "x mod k < k" using assms by simp
  ultimately show ?thesis by linarith
qed

lemma quarter_up: "0 \<le> (u::int) \<Longrightarrow> (u + 3) div 4 \<le> u"
  by presburger

lemma quarter_succ: "0 \<le> (j::int) \<Longrightarrow> (j + 1) div 4 \<le> j"
  by presburger

lemma div_400_100: "(x::int) div 400 = (x div 100) div 4"
  using zdiv_zmult2_eq [of 4 x 100] by simp

lemma div_100_shift: "((x::int) + 300) div 100 = x div 100 + 3"
  using div_mult_self1 [of 100 x 3] by simp

section \<open>Properties of the calendar functions\<close>

text \<open>A year has 365 or 366 days, by the leap year rule.\<close>

lemma leap_step4:
  "((y::int) + 1 - 1969) div 4 = (y - 1969) div 4 + (if y mod 4 = 0 then 1 else 0)"
proof -
  have "(y - 1969 + 1) mod 4 = (y - 4 * 492) mod 4" by simp
  then have "(y - 1969 + 1) mod 4 = y mod 4" by (simp only: mod_sub_multiple)
  moreover have "y + 1 - 1969 = y - 1969 + 1" by simp
  ultimately show ?thesis using div_succ [of 4 "y - 1969"] by simp
qed

lemma leap_step100:
  "((y::int) + 1 - 1901) div 100 = (y - 1901) div 100 + (if y mod 100 = 0 then 1 else 0)"
proof -
  have "(y - 1901 + 1) mod 100 = (y - 100 * 19) mod 100" by simp
  then have "(y - 1901 + 1) mod 100 = y mod 100" by (simp only: mod_sub_multiple)
  moreover have "y + 1 - 1901 = y - 1901 + 1" by simp
  ultimately show ?thesis using div_succ [of 100 "y - 1901"] by simp
qed

lemma leap_step400:
  "((y::int) + 1 - 1601) div 400 = (y - 1601) div 400 + (if y mod 400 = 0 then 1 else 0)"
proof -
  have "(y - 1601 + 1) mod 400 = (y - 400 * 4) mod 400" by simp
  then have "(y - 1601 + 1) mod 400 = y mod 400" by (simp only: mod_sub_multiple)
  moreover have "y + 1 - 1601 = y - 1601 + 1" by simp
  ultimately show ?thesis using div_succ [of 400 "y - 1601"] by simp
qed

lemma mod_400_100: "(y::int) mod 400 = 0 \<Longrightarrow> y mod 100 = 0"
  using mod_mod_cancel [of 100 400 y] by simp

lemma mod_100_4: "(y::int) mod 100 = 0 \<Longrightarrow> y mod 4 = 0"
  using mod_mod_cancel [of 4 100 y] by simp

lemma DayFromYear_step: "DayFromYear (y + 1) = DayFromYear y + DaysInYear y"
  unfolding DayFromYear_def DaysInYear_def leap_step4 leap_step100 leap_step400
  using mod_400_100 [of y] mod_100_4 [of y] by simp

lemma DaysInYear_ge: "365 \<le> DaysInYear y"
  by (simp add: DaysInYear_def)

lemma yearSearch_upper: "d < DayFromYear (yearSearch d y + 1)"
proof (induction d y rule: yearSearch.induct)
  case (1 d y)
  show ?case
  proof (cases "DayFromYear (y + 1) \<le> d")
    case True
    with 1 show ?thesis by (subst yearSearch.simps) simp
  next
    case False
    then show ?thesis by (subst yearSearch.simps) simp
  qed
qed

lemma yearSearch_lower: "DayFromYear y \<le> d \<Longrightarrow> DayFromYear (yearSearch d y) \<le> d"
proof (induction d y rule: yearSearch.induct)
  case (1 d y)
  show ?case
  proof (cases "DayFromYear (y + 1) \<le> d")
    case True
    with 1 show ?thesis by (subst yearSearch.simps) simp
  next
    case False
    with 1 show ?thesis by (subst yearSearch.simps) simp
  qed
qed

lemma estimate_nonneg:
  assumes "0 \<le> d"
  shows "DayFromYear (1970 + d div 366) \<le> d"
proof -
  define j where "j = d div 366"
  define u where "u = (j + 69) div 100"
  define v where "v = (j + 1) div 4"
  define w where "w = (u + 3) div 4"
  have j: "0 \<le> j" unfolding j_def by (rule le_div_int) (use assms in simp_all)
  have jd: "366 * j \<le> d" unfolding j_def by (rule int_div_lower) simp
  have u: "0 \<le> u" unfolding u_def by (rule le_div_int) (use j in simp_all)
  have v: "v \<le> j" unfolding v_def by (rule quarter_succ [OF j])
  have w: "w \<le> u" unfolding w_def by (rule quarter_up [OF u])
  have "(j + 369) div 400 = ((j + 69 + 300) div 100) div 4"
    by (simp add: div_400_100 add.assoc)
  also have "\<dots> = w" by (simp only: div_100_shift u_def w_def)
  finally have c: "(j + 369) div 400 = w" .
  have "DayFromYear (1970 + j) = 365 * j + v - u + (j + 369) div 400"
    by (simp add: DayFromYear_def v_def u_def add.commute)
  then have "DayFromYear (1970 + j) = 365 * j + v - u + w"
    unfolding c by simp
  with jd v w show ?thesis unfolding j_def [symmetric] by simp
qed

lemma estimate_neg:
  assumes "d < 0"
  shows "DayFromYear (1969 + d div 365) \<le> d"
proof -
  define j where "j = d div 365"
  define u where "u = (j + 68) div 100"
  define v where "v = j div 4"
  define w where "w = (u + 3) div 4"
  have j: "j \<le> - 1" unfolding j_def by (rule div_le_int) (use assms in simp_all)
  have jd: "365 * j \<le> d" unfolding j_def by (rule int_div_lower) simp
  have u0: "u \<le> 0" unfolding u_def by (rule div_le_int) (use j in simp_all)
  have "j + 68 < 100 * u + 100" unfolding u_def by (rule int_div_upper) simp
  then have ju: "j \<le> 100 * u + 31" by simp
  have v: "4 * v \<le> j" unfolding v_def by (rule int_div_lower) simp
  have w: "4 * w \<le> u + 3" unfolding w_def by (rule int_div_lower) simp
  have "(j + 368) div 400 = ((j + 68 + 300) div 100) div 4"
    by (simp add: div_400_100 add.assoc)
  also have "\<dots> = w" by (simp only: div_100_shift u_def w_def)
  finally have c: "(j + 368) div 400 = w" .
  have "DayFromYear (1969 + j) = 365 * (j - 1) + v - u + (j + 368) div 400"
    by (simp add: DayFromYear_def v_def u_def add.commute)
  then have "4 * DayFromYear (1969 + j) = 4 * (365 * (j - 1)) + 4 * v - 4 * u + 4 * w"
    unfolding c by simp
  with v w u0 ju jd have "4 * DayFromYear (1969 + j) \<le> 4 * d" by simp
  then show ?thesis unfolding j_def [symmetric] by simp
qed

text \<open>
  \<open>YearFromTime\<close> is the year the specification asks for: the year whose first day is
  not after the day of \<open>t\<close>, while the first day of the next year is.
\<close>

lemma YearFromTime_spec:
  "DayFromYear (YearFromTime t) \<le> Day t \<and> Day t < DayFromYear (YearFromTime t + 1)"
proof (cases "0 \<le> Day t")
  case True
  then show ?thesis
    using yearSearch_lower [OF estimate_nonneg [OF True]] yearSearch_upper
    by (simp add: YearFromTime_def Let_def)
next
  case False
  then have neg: "Day t < 0" by simp
  show ?thesis
    using False yearSearch_lower [OF estimate_neg [OF neg]] yearSearch_upper
    by (simp add: YearFromTime_def Let_def)
qed

lemma DayWithinYear_range:
  "0 \<le> DayWithinYear t \<and> DayWithinYear t < DaysInYear (YearFromTime t)"
  using YearFromTime_spec [of t] DayFromYear_step [of "YearFromTime t"]
  by (simp add: DayWithinYear_def)

lemma MonthFromTime_range: "0 \<le> MonthFromTime t \<and> MonthFromTime t \<le> 11"
  by (simp add: MonthFromTime_def Let_def)

text \<open>The calendar fields of a time value give its day number back.\<close>

lemma MakeDay_fields: "MakeDay (YearFromTime t) (MonthFromTime t) (DateFromTime t) = Day t"
proof -
  have "MonthFromTime t div 12 = 0" "MonthFromTime t mod 12 = MonthFromTime t"
    using MonthFromTime_range [of t] by simp_all
  then show ?thesis
    by (simp add: MakeDay_def DateFromTime_def DayWithinYear_def InLeapYear_def Let_def)
qed

text \<open>Some dates, among them a leap day and the last millisecond of 1969.\<close>

lemma date_examples:
  "getFullYear fixture_env 1793667600000 = 2026"
  "getMonth fixture_env 1793667600000 = 10"
  "getDate fixture_env 1793667600000 = 3"
  "getFullYear fixture_env 1709164800000 = 2024"
  "getMonth fixture_env 1709164800000 = 1"
  "getDate fixture_env 1709164800000 = 29"
  "getFullYear fixture_env (- 1) = 1969"
  "getMonth fixture_env (- 1) = 11"
  "getDate fixture_env (- 1) = 31"
  "newDate fixture_env 2005 10 3 = Some 1130976000000"
  "newDate fixture_env 70 0 1 = Some 0"
  by code_simp+

text \<open>
  The same calendar date \<open>n\<close> years earlier lies between \<open>365 n + n div 4 - 3\<close> and
  \<open>365 n + n div 4 + 3\<close> days back, for up to 150 years.
\<close>

lemma DayFromYear_diff:
  assumes "0 \<le> n" and "n \<le> 150"
  shows "365 * n + n div 4 - 2 \<le> DayFromYear y - DayFromYear (y - n)"
    and "DayFromYear y - DayFromYear (y - n) \<le> 365 * n + n div 4 + 2"
proof -
  define a1 where "a1 = (y - 1969) div 4"
  define a2 where "a2 = (y - 1969 - n) div 4"
  define b1 where "b1 = (y - 1901) div 100"
  define b2 where "b2 = (y - 1901 - n) div 100"
  define c1 where "c1 = (y - 1601) div 400"
  define c2 where "c2 = (y - 1601 - n) div 400"
  define N where "N = n div 4"
  define N100 where "N100 = n div 100"
  define N400 where "N400 = n div 400"
  have a: "N \<le> a1 - a2" "a1 - a2 \<le> N + 1"
    unfolding a1_def a2_def N_def by (rule div_diff_bounds; simp)+
  have n100: "0 \<le> N100" "N100 \<le> 1"
    unfolding N100_def by (rule div_lt_two; use assms in simp)+
  have b: "N100 \<le> b1 - b2" "b1 - b2 \<le> N100 + 1"
    unfolding b1_def b2_def N100_def by (rule div_diff_bounds; simp)+
  have n400: "N400 = 0"
    unfolding N400_def by (rule div_pos_pos_trivial; use assms in simp)
  have c: "N400 \<le> c1 - c2" "c1 - c2 \<le> N400 + 1"
    unfolding c1_def c2_def N400_def by (rule div_diff_bounds; simp)+
  have s: "y - n - 1969 = y - 1969 - n" "y - n - 1901 = y - 1901 - n" "y - n - 1601 = y - 1601 - n"
    by simp_all
  have e1: "DayFromYear y = 365 * (y - 1970) + a1 - b1 + c1"
    unfolding DayFromYear_def a1_def b1_def c1_def by (rule refl)
  have e2: "DayFromYear (y - n) = 365 * (y - n - 1970) + a2 - b2 + c2"
    unfolding DayFromYear_def s a2_def b2_def c2_def by (rule refl)
  show "365 * n + n div 4 - 2 \<le> DayFromYear y - DayFromYear (y - n)"
    unfolding e1 e2 N_def [symmetric] using a b c n100 n400 by (simp add: algebra_simps)
  show "DayFromYear y - DayFromYear (y - n) \<le> 365 * n + n div 4 + 2"
    unfolding e1 e2 N_def [symmetric] using a b c n100 n400 by (simp add: algebra_simps)
qed

lemma monthStart_leap:
  "monthStart m a - monthStart m b = (if m = 0 \<or> m = 1 then 0 else a - b)"
  by (simp add: monthStart_def)

lemma MakeDay_years_back:
  assumes "0 \<le> m" and "m \<le> 11" and "0 \<le> n" and "n \<le> 150"
  shows "365 * n + n div 4 - 3 \<le> MakeDay y m d - MakeDay (y - n) m d"
    and "MakeDay y m d - MakeDay (y - n) m d \<le> 365 * n + n div 4 + 3"
proof -
  have m: "m div 12 = 0" "m mod 12 = m" using assms(1,2) by simp_all
  define l1 :: int where "l1 = (if DaysInYear y = 366 then 1 else 0)"
  define l2 :: int where "l2 = (if DaysInYear (y - n) = 366 then 1 else 0)"
  have e: "MakeDay y m d - MakeDay (y - n) m d =
           DayFromYear y - DayFromYear (y - n) + (monthStart m l1 - monthStart m l2)"
    by (simp add: MakeDay_def Let_def m l1_def l2_def)
  have "- 1 \<le> monthStart m l1 - monthStart m l2" "monthStart m l1 - monthStart m l2 \<le> 1"
    unfolding monthStart_leap by (simp_all add: l1_def l2_def)
  with e DayFromYear_diff [OF assms(3,4), of y]
  show "365 * n + n div 4 - 3 \<le> MakeDay y m d - MakeDay (y - n) m d"
    and "MakeDay y m d - MakeDay (y - n) m d \<le> 365 * n + n div 4 + 3"
    by simp_all
qed

section \<open>Properties of gender compatibility\<close>

text \<open>
  C5. Gender compatibility is symmetric: the method returns the same boolean when the
  receiver and the argument are exchanged.
\<close>

theorem isGenderCompatibleWith_symmetric:
  "isGenderCompatibleWith a b = isGenderCompatibleWith b a"
  unfolding isGenderCompatibleWith_def Let_def by (rule conj_commute)

text \<open>
  C6. If the receiver's \<open>interestedIn\<close> is empty, or holds neither the other user's gender
  nor the wildcard \<^verbatim>\<open>tous\<close>, the two users are not compatible: an empty
  \<open>interestedIn\<close> is never read as a wildcard.
\<close>

theorem isGenderCompatibleWith_not_interested:
  assumes "interestedIn (genderIdentity a) = [] \<or>
           (myGender (genderIdentity b) \<notin> set (interestedIn (genderIdentity a)) \<and>
            ''tous'' \<notin> set (interestedIn (genderIdentity a)))"
  shows "\<not> isGenderCompatibleWith a b"
  using assms by (auto simp: isGenderCompatibleWith_def array_includes_def Let_def)

theorem isGenderCompatibleWith_not_interested_witness:
  "interestedIn (genderIdentity (newUser ''u7'' 895363200000 ''femme'' [] 1793525400000)) = [] \<and>
   \<not> isGenderCompatibleWith (newUser ''u7'' 895363200000 ''femme'' [] 1793525400000) cand_inactive"
  using isGenderCompatibleWith_not_interested
    [of "newUser ''u7'' 895363200000 ''femme'' [] 1793525400000" cand_inactive]
  by (simp add: newUser_def)

section \<open>Properties of distance, freshness and the public profile\<close>

text \<open>
  C8. \<open>distanceTo\<close> returns the sentinel \<open>None\<close> (JavaScript \<^verbatim>\<open>null\<close>) exactly when
  the coordinate array of either user is missing, and it always returns; the default
  coordinates \<^verbatim>\<open>[0, 0]\<close> are present and give a number.
\<close>

theorem distanceTo_absent:
  "(distanceTo haversine a b = None \<longleftrightarrow>
      coordinates (location a) = None \<or> coordinates (location b) = None) \<and>
   distanceTo haversine
     (a\<lparr>location := \<lparr>coordinates = Some [0, 0]\<rparr>\<rparr>)
     (b\<lparr>location := \<lparr>coordinates = Some [0, 0]\<rparr>\<rparr>) = Some (haversine [0, 0] [0, 0])"
  by (simp add: distanceTo_def split: option.splits)

text \<open>
  C9. A mood entry is fresh iff the time since its timestamp is at most \<open>expiryHours\<close>
  hours; an entry exactly \<open>expiryHours\<close> old is fresh and one that is a second older is
  not.
\<close>

theorem isFresh_boundary:
  "(isFresh e moodTimestamp expiryHours \<longleftrightarrow>
      nowMs e - moodTimestamp \<le> expiryHours * 3600000) \<and>
   isFresh (e\<lparr>nowMs := moodTimestamp + expiryHours * 3600000\<rparr>) moodTimestamp expiryHours \<and>
   \<not> isFresh (e\<lparr>nowMs := moodTimestamp + expiryHours * 3600000 + 1000\<rparr>) moodTimestamp expiryHours"
  by (simp add: isFresh_def)

text \<open>
  C10. \<open>getPublicProfile\<close> returns the object of \<^verbatim>\<open>toObject\<close> without the seven keys
  \<^verbatim>\<open>password\<close>, \<^verbatim>\<open>email\<close>, \<^verbatim>\<open>refreshTokens\<close>, \<^verbatim>\<open>passwordResetToken\<close>,
  \<^verbatim>\<open>passwordResetExpires\<close>, \<^verbatim>\<open>emailVerificationToken\<close> and
  \<^verbatim>\<open>emailVerificationExpires\<close>; every other key keeps its value.
\<close>

theorem getPublicProfile_removes:
  "getPublicProfile toObject this k =
     (if k \<in> {''password'', ''email'', ''refreshTokens'', ''passwordResetToken'',
                ''passwordResetExpires'', ''emailVerificationToken'',
                ''emailVerificationExpires''}
      then None else toObject this k)"
  by (simp add: getPublicProfile_def delete_property_def Let_def)

section \<open>Properties of the candidate query\<close>

lemma findCompatibleUsers_query:
  "findCompatibleUsers e coll user opts =
     (case find_docs coll (candidate_query e user opts) of
        Inl err \<Rightarrow> Inl err
      | Inr docs \<Rightarrow>
          Inr (map select_fields (limit_docs (resolved_limit opts) (sort_lastSeen_desc docs))))"
  unfolding findCompatibleUsers_def candidate_query_def resolved_maxDistance_def
    resolved_ageMin_def resolved_ageMax_def resolved_limit_def birthDate_def Let_def
  by (rule refl)

lemma set_limit_docs: "set (limit_docs n docs) \<subseteq> set docs"
  by (auto simp: limit_docs_def dest: in_set_takeD)

lemma set_sort_lastSeen_desc: "set (sort_lastSeen_desc docs) = set docs"
  by (simp add: sort_lastSeen_desc_def)

lemma find_docs_Inr:
  assumes "find_docs coll q = Inr docs"
  obtains p lo hi where
    "coordinates (q_near_geometry q) = Some p"
    "q_dateOfBirth_gte q = Some lo"
    "q_dateOfBirth_lte q = Some hi"
    "docs = filter (matches coll q p lo hi) (documents coll)"
  using assms by (auto simp: find_docs_def split: option.splits)

lemma returned_candidate:
  assumes "findCompatibleUsers e coll user opts = Inr cs" and "c \<in> set cs"
  obtains doc p lo hi where
    "doc \<in> set (documents coll)"
    "c = select_fields doc"
    "coordinates (location user) = Some p"
    "birthDate e (resolved_ageMax user opts) = Some lo"
    "birthDate e (resolved_ageMin user opts) = Some hi"
    "matches coll (candidate_query e user opts) p lo hi doc"
proof -
  from assms(1) obtain docs where
    f: "find_docs coll (candidate_query e user opts) = Inr docs" and
    cs: "cs = map select_fields (limit_docs (resolved_limit opts) (sort_lastSeen_desc docs))"
    by (auto simp: findCompatibleUsers_query split: sum.splits)
  from f obtain p lo hi where
    q: "coordinates (q_near_geometry (candidate_query e user opts)) = Some p"
       "q_dateOfBirth_gte (candidate_query e user opts) = Some lo"
       "q_dateOfBirth_lte (candidate_query e user opts) = Some hi" and
    docs: "docs = filter (matches coll (candidate_query e user opts) p lo hi) (documents coll)"
    by (rule find_docs_Inr)
  from assms(2) cs obtain doc where
    d: "doc \<in> set (limit_docs (resolved_limit opts) (sort_lastSeen_desc docs))" and
    c: "c = select_fields doc"
    by auto
  from d have "doc \<in> set docs"
    using set_limit_docs set_sort_lastSeen_desc by blast
  with docs have "doc \<in> set (documents coll)" and
    "matches coll (candidate_query e user opts) p lo hi doc"
    by simp_all
  moreover from q have "coordinates (location user) = Some p"
    "birthDate e (resolved_ageMax user opts) = Some lo"
    "birthDate e (resolved_ageMin user opts) = Some hi"
    by (simp_all add: candidate_query_def)
  ultimately show thesis using c that by blast
qed

lemma select_fields_simps:
  "user_id (select_fields d) = user_id d"
  "isActive (select_fields d) = isActive d"
  "isBanned (select_fields d) = isBanned d"
  "dateOfBirth (select_fields d) = dateOfBirth d"
  "genderIdentity (select_fields d) = genderIdentity d"
  "location (select_fields d) = location d"
  "moodSystem (select_fields d) = moodSystem d"
  "lastSeen (select_fields d) = lastSeen d"
  by (simp_all add: select_fields_def)

lemma fixture_result:
  "findCompatibleUsers fixture_env fixture_users requester no_options =
     Inr [select_fields cand_onesided, select_fields cand_mutual, select_fields cand_birthday]"
  by code_simp

text \<open>
  C3. Every candidate that \<open>findCompatibleUsers\<close> returns is distinct from the requesting
  user (it has another \<^verbatim>\<open>_id\<close>), is active and is not banned.
\<close>

theorem findCompatibleUsers_excludes:
  assumes "findCompatibleUsers e coll user opts = Inr cs" and "c \<in> set cs"
  shows "user_id c \<noteq> user_id user \<and> c \<noteq> user \<and> isActive c \<and> \<not> isBanned c"
proof -
  from assms obtain doc p lo hi where
    c: "c = select_fields doc" and
    m: "matches coll (candidate_query e user opts) p lo hi doc"
    by (rule returned_candidate)
  from m have "user_id doc \<noteq> user_id user" "isActive doc" "\<not> isBanned doc"
    by (simp_all add: matches_def candidate_query_def)
  with c show ?thesis by (auto simp: select_fields_simps)
qed

theorem findCompatibleUsers_excludes_witness:
  "findCompatibleUsers fixture_env fixture_users requester no_options =
     Inr [select_fields cand_onesided, select_fields cand_mutual, select_fields cand_birthday] \<and>
   user_id (select_fields cand_mutual) \<noteq> user_id requester \<and>
   select_fields cand_mutual \<noteq> requester \<and>
   isActive (select_fields cand_mutual) \<and> \<not> isBanned (select_fields cand_mutual)"
  using findCompatibleUsers_excludes [OF fixture_result, of "select_fields cand_mutual"] fixture_result
  by simp

section \<open>Gender and location in the candidate query\<close>

lemma candidate_query_gender:
  "candidate_query e (user\<lparr>genderIdentity := gi\<rparr>) opts = candidate_query e user opts"
  by (simp add: candidate_query_def resolved_maxDistance_def resolved_ageMin_def
      resolved_ageMax_def split: option.splits)

lemma matches_gender:
  "matches (coll\<lparr>documents := ds\<rparr>) q p lo hi (genderIdentity_update g doc) =
   matches coll q p lo hi doc"
  by (simp add: matches_def split: option.splits)

lemma filter_matches_gender:
  "filter (matches (coll\<lparr>documents := ds\<rparr>) q p lo hi) (map (genderIdentity_update g) docs) =
   map (genderIdentity_update g) (filter (matches coll q p lo hi) docs)"
  by (induction docs) (simp_all add: matches_gender)

lemma insort_lastSeen_gender:
  "insort_key (\<lambda>d. - lastSeen d) (genderIdentity_update g x) (map (genderIdentity_update g) xs) =
   map (genderIdentity_update g) (insort_key (\<lambda>d. - lastSeen d) x xs)"
  by (induction xs) simp_all

lemma sort_lastSeen_desc_gender:
  "sort_lastSeen_desc (map (genderIdentity_update g) docs) =
   map (genderIdentity_update g) (sort_lastSeen_desc docs)"
  unfolding sort_lastSeen_desc_def
  by (induction docs) (simp_all add: insort_lastSeen_gender)

lemma limit_docs_map: "limit_docs n (map f docs) = map f (limit_docs n docs)"
  by (simp add: limit_docs_def take_map)

lemma select_fields_gender:
  "select_fields (genderIdentity_update g doc) = genderIdentity_update g (select_fields doc)"
  by (simp add: select_fields_def)

lemma find_docs_gender:
  "find_docs (coll\<lparr>documents := map (genderIdentity_update g) (documents coll)\<rparr>) q =
     (case find_docs coll q of
        Inl err \<Rightarrow> Inl err
      | Inr docs \<Rightarrow> Inr (map (genderIdentity_update g) docs))"
  by (simp add: find_docs_def filter_matches_gender split: option.splits)

text \<open>
  C1 as stated fails: the fixture's query returns a man interested in men only to a
  woman; \<open>isGenderCompatibleWith\<close> is false for the pair.
\<close>

lemma fixture_onesided: "\<not> isGenderCompatibleWith requester (select_fields cand_onesided)"
  by code_simp

theorem findCompatibleUsers_gender_counterexample:
  "findCompatibleUsers fixture_env fixture_users requester no_options =
     Inr [select_fields cand_onesided, select_fields cand_mutual, select_fields cand_birthday] \<and>
   \<not> isGenderCompatibleWith requester (select_fields cand_onesided)"
  by (intro conjI fixture_result fixture_onesided)

text \<open>
  C1, amended. \<open>findCompatibleUsers\<close> applies no gender predicate at all: rewriting the
  gender identity of the requester and of every stored user changes the returned
  candidates by that rewriting only. Which candidates are compatible is left to whoever
  filters the returned sequence with \<open>isGenderCompatibleWith\<close>.
\<close>

theorem findCompatibleUsers_ignores_gender:
  "findCompatibleUsers e
     (coll\<lparr>documents := map (genderIdentity_update g) (documents coll)\<rparr>)
     (user\<lparr>genderIdentity := gi\<rparr>) opts =
     (case findCompatibleUsers e coll user opts of
        Inl err \<Rightarrow> Inl err
      | Inr cs \<Rightarrow> Inr (map (genderIdentity_update g) cs))"
  by (simp add: findCompatibleUsers_query candidate_query_gender find_docs_gender
      sort_lastSeen_desc_gender limit_docs_map select_fields_gender split: sum.splits)








section \<open>Ages of the returned candidates\<close>

text \<open>
  The query bounds the date of birth by two calendar dates: today's date, \<open>ageMax\<close> and
  \<open>ageMin\<close> years back, at local midnight. The \<^verbatim>\<open>age\<close> virtual counts years of
  365.25 days instead. The lemmas below measure the time between such a calendar date and
  the clock.
\<close>

lemma birthDate_value:
  assumes "1970 \<le> getFullYear e (nowMs e)" and "0 \<le> a" and "a \<le> 150"
    and "birthDate e a = Some x"
  shows "x = MakeDay (getFullYear e (nowMs e) - a) (getMonth e (nowMs e)) (getDate e (nowMs e)) * msPerDay
             - LocalTZA e (MakeDay (getFullYear e (nowMs e) - a) (getMonth e (nowMs e))
                 (getDate e (nowMs e)) * msPerDay) False"
proof -
  have "\<not> (0 \<le> getFullYear e (nowMs e) - a \<and> getFullYear e (nowMs e) - a \<le> 99)"
    using assms(1,3) by simp
  with assms(4) show ?thesis
    by (simp add: birthDate_def newDate_def MakeDate_def UTC_def TimeClip_def Let_def
        split: if_splits)
qed

lemma birthDate_gap:
  assumes year: "1970 \<le> getFullYear e (nowMs e)"
    and tz: "\<forall>t b. \<bar>LocalTZA e t b\<bar> \<le> msPerDay"
    and a: "0 \<le> a" "a \<le> 150"
    and x: "birthDate e a = Some x"
  shows "(365 * a + a div 4 - 5) * msPerDay \<le> nowMs e - x"
    and "nowMs e - x < (365 * a + a div 4 + 6) * msPerDay"
proof -
  define L where "L = LocalTime e (nowMs e)"
  define Dm where "Dm = MakeDay (YearFromTime L - a) (MonthFromTime L) (DateFromTime L)"
  define tz1 where "tz1 = LocalTZA e (nowMs e) True"
  define tz2 where "tz2 = LocalTZA e (Dm * msPerDay) False"
  define Q where "Q = a div 4"
  define G where "G = Day L - Dm"
  define W where "W = TimeWithinDay L"
  have xv: "x = Dm * msPerDay - tz2"
    using birthDate_value [OF year a x]
    by (simp add: Dm_def tz2_def L_def getFullYear_def getMonth_def getDate_def)
  have now: "nowMs e = L - tz1" by (simp add: L_def LocalTime_def tz1_def)
  have L: "L = Day L * msPerDay + W"
    by (simp add: Day_def W_def TimeWithinDay_def)
  have W: "0 \<le> W" "W < msPerDay"
    by (simp_all add: W_def TimeWithinDay_def msPerDay_def)
  have t1: "- msPerDay \<le> tz1" "tz1 \<le> msPerDay"
    using tz [rule_format, of "nowMs e" True] by (simp_all add: tz1_def abs_le_iff)
  have t2: "- msPerDay \<le> tz2" "tz2 \<le> msPerDay"
    using tz [rule_format, of "Dm * msPerDay" False] by (simp_all add: tz2_def abs_le_iff)
  have "Day L = MakeDay (YearFromTime L) (MonthFromTime L) (DateFromTime L)"
    by (simp add: MakeDay_fields)
  then have g: "365 * a + Q - 3 \<le> G" "G \<le> 365 * a + Q + 3"
    unfolding G_def Dm_def Q_def
    using MakeDay_years_back [OF _ _ a, of "MonthFromTime L" "YearFromTime L" "DateFromTime L"]
      MonthFromTime_range [of L] by simp_all
  have e: "nowMs e - x = G * msPerDay + W - tz1 + tz2"
    using L unfolding now xv G_def by (simp add: algebra_simps)
  show "(365 * a + a div 4 - 5) * msPerDay \<le> nowMs e - x"
    unfolding e Q_def [symmetric] using g W t1 t2 by (simp add: msPerDay_def algebra_simps)
  show "nowMs e - x < (365 * a + a div 4 + 6) * msPerDay"
    unfolding e Q_def [symmetric] using g W t1 t2 by (simp add: msPerDay_def algebra_simps)
qed

lemma age_from_gaps:
  fixes n dob lo hi a1 a2 :: int
  assumes lo: "lo \<le> dob" and hi: "dob \<le> hi"
    and g1: "(365 * a1 + a1 div 4 - 5) * msPerDay \<le> n - hi"
    and g2: "n - lo < (365 * a2 + a2 div 4 + 6) * msPerDay"
  shows "a1 - 1 \<le> (n - dob) div 31557600000" and "(n - dob) div 31557600000 \<le> a2"
    and "dob + 6 * msPerDay \<le> hi \<Longrightarrow> a1 \<le> (n - dob) div 31557600000"
proof -
  define Q1 where "Q1 = a1 div 4"
  define Q2 where "Q2 = a2 div 4"
  have q1: "a1 \<le> 4 * Q1 + 3" using quarter_bounds [of a1] by (simp add: Q1_def)
  have q2: "4 * Q2 \<le> a2" using quarter_bounds [of a2] by (simp add: Q2_def)
  have "(a1 - 1) * 31557600000 \<le> (365 * a1 + Q1 - 5) * 86400000"
    using q1 by (simp add: algebra_simps)
  also have "\<dots> \<le> n - hi" using g1 by (simp add: Q1_def msPerDay_def)
  also have "\<dots> \<le> n - dob" using hi by simp
  finally show "a1 - 1 \<le> (n - dob) div 31557600000"
    by (intro le_div_int) simp_all
  have "n - dob \<le> n - lo" using lo by simp
  also have "\<dots> < (365 * a2 + Q2 + 6) * 86400000" using g2 by (simp add: Q2_def msPerDay_def)
  also have "\<dots> \<le> (a2 + 1) * 31557600000"
    using q2 by (simp add: algebra_simps)
  finally show "(n - dob) div 31557600000 \<le> a2"
    by (intro div_le_int) simp_all
  assume early: "dob + 6 * msPerDay \<le> hi"
  have "a1 * 31557600000 \<le> (365 * a1 + Q1 - 5) * 86400000 + 6 * 86400000"
    using q1 by (simp add: algebra_simps)
  also have "\<dots> \<le> (n - hi) + 6 * 86400000" using g1 by (simp add: Q1_def msPerDay_def)
  also have "\<dots> \<le> n - dob" using early by (simp add: msPerDay_def)
  finally show "a1 \<le> (n - dob) div 31557600000"
    by (intro le_div_int) simp_all
qed

lemma fixture_year: "getFullYear fixture_env (nowMs fixture_env) = 2026"
  by code_simp

lemma fixture_result_21:
  "findCompatibleUsers fixture_env fixture_users requester (no_options\<lparr>opt_ageMin := Some 21\<rparr>) =
     Inr [select_fields cand_onesided, select_fields cand_mutual, select_fields cand_birthday]"
  by code_simp

lemma fixture_age_birthday: "age fixture_env (select_fields cand_birthday) = Some 20"
  by code_simp

lemma fixture_ageMin_21:
  "resolved_ageMin requester (no_options\<lparr>opt_ageMin := Some 21\<rparr>) = 21"
  by (simp add: resolved_ageMin_def no_options_def)

lemma fixture_ageMax_21:
  "resolved_ageMax requester (no_options\<lparr>opt_ageMin := Some 21\<rparr>) = 35"
  by (simp add: resolved_ageMax_def no_options_def requester_def newUser_def)

text \<open>
  C4 as stated fails: with \<open>ageMin = 21\<close> and \<open>ageMax = 35\<close> the query returns a
  candidate born 2005-11-03T00:00:00Z when the clock reads 2026-11-03T01:00:00Z. The 21
  calendar years between the two dates hold 7670 days, less than 21 times 365.25, so the
  candidate's age is 20.
\<close>

theorem findCompatibleUsers_age_counterexample:
  "findCompatibleUsers fixture_env fixture_users requester (no_options\<lparr>opt_ageMin := Some 21\<rparr>) =
     Inr [select_fields cand_onesided, select_fields cand_mutual, select_fields cand_birthday] \<and>
   resolved_ageMin requester (no_options\<lparr>opt_ageMin := Some 21\<rparr>) = 21 \<and>
   resolved_ageMax requester (no_options\<lparr>opt_ageMin := Some 21\<rparr>) = 35 \<and>
   age fixture_env (select_fields cand_birthday) = Some 20"
  by (intro conjI fixture_result_21 fixture_ageMin_21 fixture_ageMax_21 fixture_age_birthday)

text \<open>
  C4, amended. For bounds \<open>0 \<le> ageMin \<le> ageMax \<le> 150\<close>, a clock in 1970 or later and
  local time zone adjustments of at most a day, every candidate that \<open>findCompatibleUsers\<close>
  returns has a date of birth between the two dates of the query: local midnight of
  today's calendar date \<open>ageMax\<close> years ago (\<open>lo\<close>) and \<open>ageMin\<close> years ago (\<open>hi\<close>). Its
  age \<open>floor((now - dob) / 365.25 days)\<close> lies in \<open>[ageMin - 1, ageMax]\<close>, and it is at
  least \<open>ageMin\<close> unless the candidate was born less than six days before \<open>hi\<close>.
\<close>

theorem findCompatibleUsers_age_range:
  assumes "findCompatibleUsers e coll user opts = Inr cs" and "c \<in> set cs"
    and "1970 \<le> getFullYear e (nowMs e)"
    and "\<forall>t b. \<bar>LocalTZA e t b\<bar> \<le> msPerDay"
    and "0 \<le> resolved_ageMin user opts"
    and "resolved_ageMin user opts \<le> resolved_ageMax user opts"
    and "resolved_ageMax user opts \<le> 150"
  shows "\<exists>dob lo hi a.
           dateOfBirth c = Some dob \<and>
           birthDate e (resolved_ageMax user opts) = Some lo \<and>
           birthDate e (resolved_ageMin user opts) = Some hi \<and>
           lo \<le> dob \<and> dob \<le> hi \<and>
           age e c = Some a \<and> a = (nowMs e - dob) div 31557600000 \<and>
           resolved_ageMin user opts - 1 \<le> a \<and> a \<le> resolved_ageMax user opts \<and>
           (dob + 6 * msPerDay \<le> hi \<longrightarrow> resolved_ageMin user opts \<le> a)"
proof -
  from assms(1,2) obtain doc p lo hi where
    c: "c = select_fields doc" and
    lo: "birthDate e (resolved_ageMax user opts) = Some lo" and
    hi: "birthDate e (resolved_ageMin user opts) = Some hi" and
    m: "matches coll (candidate_query e user opts) p lo hi doc"
    by (rule returned_candidate)
  from m obtain dob where
    dob: "dateOfBirth doc = Some dob" "lo \<le> dob" "dob \<le> hi"
    by (auto simp: matches_def split: option.splits)
  have mn: "0 \<le> resolved_ageMin user opts" "resolved_ageMin user opts \<le> 150"
    using assms(5,6,7) by simp_all
  have mx: "0 \<le> resolved_ageMax user opts" "resolved_ageMax user opts \<le> 150"
    using assms(5,6,7) by simp_all
  define a where "a = (nowMs e - dob) div 31557600000"
  note gaps = age_from_gaps [OF dob(2,3)
      birthDate_gap(1) [OF assms(3,4) mn hi] birthDate_gap(2) [OF assms(3,4) mx lo]]
  have "resolved_ageMin user opts - 1 \<le> a" and "a \<le> resolved_ageMax user opts"
    and "dob + 6 * msPerDay \<le> hi \<longrightarrow> resolved_ageMin user opts \<le> a"
    unfolding a_def using gaps by blast+
  moreover have "dateOfBirth c = Some dob" "age e c = Some a"
    using c dob(1) by (simp_all add: age_def select_fields_simps a_def)
  ultimately show ?thesis using lo hi dob(2,3) a_def by blast
qed

lemma fixture_birthDates_21:
  "birthDate fixture_env (resolved_ageMax requester (no_options\<lparr>opt_ageMin := Some 21\<rparr>)) =
     Some 689126400000"
  "birthDate fixture_env (resolved_ageMin requester (no_options\<lparr>opt_ageMin := Some 21\<rparr>)) =
     Some 1130976000000"
  by code_simp+

lemma fixture_dob_mutual: "dateOfBirth (select_fields cand_mutual) = Some 895363200000"
  by code_simp

lemma fixture_dob_birthday: "dateOfBirth (select_fields cand_birthday) = Some 1130976000000"
  by code_simp

lemma fixture_age_mutual: "age fixture_env (select_fields cand_mutual) = Some 28"
  by code_simp

text \<open>
  In the fixture, with \<open>ageMin = 21\<close>: the candidate born in 1998 lies well before the
  upper date and is 28; the candidate born on the upper date itself is 20.
\<close>

theorem findCompatibleUsers_age_range_witness:
  "findCompatibleUsers fixture_env fixture_users requester (no_options\<lparr>opt_ageMin := Some 21\<rparr>) =
     Inr [select_fields cand_onesided, select_fields cand_mutual, select_fields cand_birthday] \<and>
   1970 \<le> getFullYear fixture_env (nowMs fixture_env) \<and>
   (\<forall>t b. \<bar>LocalTZA fixture_env t b\<bar> \<le> msPerDay) \<and>
   resolved_ageMin requester (no_options\<lparr>opt_ageMin := Some 21\<rparr>) = 21 \<and>
   resolved_ageMax requester (no_options\<lparr>opt_ageMin := Some 21\<rparr>) = 35 \<and>
   birthDate fixture_env 35 = Some 689126400000 \<and>
   birthDate fixture_env 21 = Some 1130976000000 \<and>
   dateOfBirth (select_fields cand_mutual) = Some 895363200000 \<and>
   689126400000 \<le> (895363200000::int) \<and>
   895363200000 + 6 * msPerDay \<le> 1130976000000 \<and>
   age fixture_env (select_fields cand_mutual) = Some 28 \<and>
   (21::int) \<le> 28 \<and> (28::int) \<le> 35 \<and>
   dateOfBirth (select_fields cand_birthday) = Some 1130976000000 \<and>
   age fixture_env (select_fields cand_birthday) = Some 20 \<and>
   (21::int) - 1 \<le> 20"
proof -
  have y: "1970 \<le> getFullYear fixture_env (nowMs fixture_env)"
    by (simp add: fixture_year)
  have tz: "\<forall>t b. \<bar>LocalTZA fixture_env t b\<bar> \<le> msPerDay"
    by (simp add: fixture_env_def msPerDay_def)
  note mn = fixture_ageMin_21 and mx = fixture_ageMax_21
  have r: "0 \<le> resolved_ageMin requester (no_options\<lparr>opt_ageMin := Some 21\<rparr>)"
    "resolved_ageMin requester (no_options\<lparr>opt_ageMin := Some 21\<rparr>) \<le>
     resolved_ageMax requester (no_options\<lparr>opt_ageMin := Some 21\<rparr>)"
    "resolved_ageMax requester (no_options\<lparr>opt_ageMin := Some 21\<rparr>) \<le> 150"
    by (simp_all add: mn mx)
  have m: "select_fields cand_mutual \<in>
             set [select_fields cand_onesided, select_fields cand_mutual, select_fields cand_birthday]"
    and b: "select_fields cand_birthday \<in>
             set [select_fields cand_onesided, select_fields cand_mutual, select_fields cand_birthday]"
    by simp_all
  note t1 = findCompatibleUsers_age_range [OF fixture_result_21 m y tz r]
  note t2 = findCompatibleUsers_age_range [OF fixture_result_21 b y tz r]
  have bd: "birthDate fixture_env 35 = Some 689126400000"
    "birthDate fixture_env 21 = Some 1130976000000"
    using fixture_birthDates_21 by (simp_all add: mn mx)
  from t1 have "21 \<le> (28::int) \<and> (28::int) \<le> 35 \<and> 689126400000 \<le> (895363200000::int)"
    by (auto simp: mn mx bd fixture_dob_mutual fixture_age_mutual msPerDay_def)
  moreover from t2 have "(21::int) - 1 \<le> 20"
    by (auto simp: mn mx bd fixture_dob_birthday fixture_age_birthday)
  moreover have "895363200000 + 6 * msPerDay \<le> 1130976000000"
    by (simp add: msPerDay_def)
  ultimately show ?thesis
    using fixture_result_21 y tz mn mx bd fixture_dob_mutual fixture_age_mutual
      fixture_dob_birthday fixture_age_birthday
    by simp
qed

end
